theory Spec2Isabelle
  imports Complex_Main "HOL-Library.AList" "HOL-Library.Sublist"
begin

section \<open>JavaScript values\<close>

text \<open>
  The renderer hook, the service class and the IPC handlers all work on untyped
  (\<open>any\<close>) results and configurations.  A value is one of the JavaScript primitives or
  a plain object, kept as an association list from property names to values.  Numbers
  are reals plus \<open>NaN\<close>; the infinities are left out (they are truthy and behave like
  any other non-zero number in the code below).
\<close>

datatype jsval =
    JUndefined
  | JNull
  | JBool bool
  | JNum real
  | JNaN
  | JStr string
  | JObj "(string \<times> jsval) list"

text \<open>Truthiness, as \<open>if (v)\<close>, \<open>a && b\<close> and \<open>a || b\<close> use it.\<close>

fun truthy :: "jsval \<Rightarrow> bool" where
  "truthy JUndefined = False"
| "truthy JNull = False"
| "truthy (JBool b) = b"
| "truthy (JNum x) = (x \<noteq> 0)"
| "truthy JNaN = False"
| "truthy (JStr s) = (s \<noteq> [])"
| "truthy (JObj kvs) = True"

fun nullish :: "jsval \<Rightarrow> bool" where
  "nullish JUndefined = True"
| "nullish JNull = True"
| "nullish v = False"

text \<open>\<open>a || b\<close>: the left operand when it is truthy, the right one otherwise.\<close>

definition js_or :: "jsval \<Rightarrow> jsval \<Rightarrow> jsval" where
  "js_or a b = (if truthy a then a else b)"

text \<open>
  \<open>v.k\<close> on a value that is neither \<open>null\<close> nor \<open>undefined\<close>: the property of an
  object, \<open>undefined\<close> when the object lacks it or when \<open>v\<close> is a primitive (none of
  the property names read below is a built-in property of a primitive).  On \<open>null\<close> and
  \<open>undefined\<close> the read throws a TypeError; every caller below tests \<^const>\<open>nullish\<close>
  first and takes its throwing branch there.
\<close>

fun js_prop :: "jsval \<Rightarrow> string \<Rightarrow> jsval" where
  "js_prop (JObj kvs) k = (case map_of kvs k of Some v \<Rightarrow> v | None \<Rightarrow> JUndefined)"
| "js_prop v k = JUndefined"

text \<open>\<open>v?.k\<close>: \<open>undefined\<close> on \<open>null\<close> and \<open>undefined\<close> instead of throwing.\<close>

definition js_opt_prop :: "jsval \<Rightarrow> string \<Rightarrow> jsval" where
  "js_opt_prop v k = (if nullish v then JUndefined else js_prop v k)"

text \<open>The result of running code that may throw.\<close>

datatype 'a outcome = Returns 'a | Throws

section \<open>The service hook \<open>useVideoRAGService\<close>\<close>

record ServiceState =
  isRunning :: jsval
  internvideo2Loaded :: jsval
  message :: jsval
  error :: jsval

record LoadingFlags =
  starting :: bool
  stopping :: bool
  checkingService :: bool
  loadingInternVideo2 :: bool
  releasingInternVideo2 :: bool

text \<open>The calls of \<open>window.api.videorag\<close> the hook makes (the Supervisor's endpoints).\<close>

datatype api_call =
    SystemStatus
  | StartService
  | StopService
  | LoadInternVideo2
  | ReleaseInternVideo2
  | Internvideo2Status

text \<open>
  The hook's state: the two \<open>useState\<close> cells, and the log of the calls made to the
  Supervisor so far (a ghost field: the code keeps no such list).
\<close>

record controller =
  serviceState :: ServiceState
  loading :: LoadingFlags
  invoked :: "api_call list"

definition initial :: controller where
  "initial = \<lparr> serviceState = \<lparr> isRunning = JBool False, internvideo2Loaded = JBool False,
                                 message = JUndefined, error = JUndefined \<rparr>,
               loading = \<lparr> starting = False, stopping = False, checkingService = False,
                           loadingInternVideo2 = False, releasingInternVideo2 = False \<rparr>,
               invoked = [] \<rparr>"

text \<open>
  What the awaited call comes back with: the promise rejects (or the call throws), or it
  resolves with a value.
\<close>

datatype response = Rejected | Resolved jsval

text \<open>
  Each operation is an \<open>async\<close> function: the code up to the \<open>await\<close> runs at the
  call (\<open>_begin\<close>: set the busy flag, call the Supervisor), the rest runs when the
  Supervisor's answer arrives (\<open>_complete\<close>: the \<open>try\<close> block after the \<open>await\<close>, the
  \<open>catch\<close> block when that throws, and the \<open>finally\<close> block).  Between the two,
  other operations may run.  \<open>_complete\<close> also gives the operation's return value.
\<close>

subsection \<open>checkServiceStatus\<close>

definition checkServiceStatus_begin :: "controller \<Rightarrow> controller" where
  "checkServiceStatus_begin c =
     c\<lparr> loading := (loading c)\<lparr> checkingService := True \<rparr>,
        invoked := invoked c @ [SystemStatus] \<rparr>"

definition checkServiceStatus_try :: "response \<Rightarrow> ServiceState \<Rightarrow> ServiceState outcome" where
  "checkServiceStatus_try r s =
     (case r of
        Rejected \<Rightarrow> Throws
      | Resolved result \<Rightarrow>
          if nullish result then Throws
          else if truthy (js_prop result ''success'') \<and> truthy (js_prop result ''data'') then
            (let data = js_prop result ''data'' in
             Returns (s\<lparr> isRunning :=
                           (if js_prop data ''total_sessions'' \<noteq> JUndefined then JBool True
                            else js_prop data ''global_config_set''),
                         internvideo2Loaded := js_or (js_prop data ''internvideo2_loaded'') (JBool False),
                         message :=
                           (if truthy (js_prop data ''internvideo2_loaded'')
                            then JStr ''Service ready for video processing''
                            else JStr ''Service running - InternVideo2 not loaded'') \<rparr>))
          else
            Returns (s\<lparr> isRunning := JBool False,
                        internvideo2Loaded := JBool False,
                        error := js_or (js_prop result ''error'') (JStr ''Failed to get system status'') \<rparr>))"

definition checkServiceStatus_complete :: "response \<Rightarrow> controller \<Rightarrow> controller \<times> jsval" where
  "checkServiceStatus_complete r c =
     (let s' = (case checkServiceStatus_try r (serviceState c) of
                  Returns s1 \<Rightarrow> s1
                | Throws \<Rightarrow> (serviceState c)\<lparr> isRunning := JBool False,
                                               internvideo2Loaded := JBool False,
                                               error := JStr ''Failed to check service status'' \<rparr>)
      in (c\<lparr> serviceState := s',
             loading := (loading c)\<lparr> checkingService := False \<rparr> \<rparr>, JUndefined))"

subsection \<open>startService\<close>

definition startService_begin :: "controller \<Rightarrow> controller" where
  "startService_begin c =
     c\<lparr> loading := (loading c)\<lparr> starting := True \<rparr>,
        invoked := invoked c @ [StartService] \<rparr>"

definition startService_try :: "response \<Rightarrow> ServiceState \<Rightarrow> (ServiceState \<times> jsval) outcome" where
  "startService_try r s =
     (case r of
        Rejected \<Rightarrow> Throws
      | Resolved result \<Rightarrow>
          if nullish result then Throws
          else if truthy (js_prop result ''success'') then
            Returns (s\<lparr> isRunning := JBool True, message := js_prop result ''message'' \<rparr>, JBool True)
          else
            Returns (s\<lparr> isRunning := JBool False, error := js_prop result ''error'' \<rparr>, JBool False))"

definition startService_complete :: "response \<Rightarrow> controller \<Rightarrow> controller \<times> jsval" where
  "startService_complete r c =
     (let (s', ret) = (case startService_try r (serviceState c) of
                         Returns x \<Rightarrow> x
                       | Throws \<Rightarrow> ((serviceState c)\<lparr> isRunning := JBool False,
                                                       error := JStr ''Failed to start service'' \<rparr>,
                                     JBool False))
      in (c\<lparr> serviceState := s', loading := (loading c)\<lparr> starting := False \<rparr> \<rparr>, ret))"

subsection \<open>stopService\<close>

definition stopService_begin :: "controller \<Rightarrow> controller" where
  "stopService_begin c =
     c\<lparr> loading := (loading c)\<lparr> stopping := True \<rparr>,
        invoked := invoked c @ [StopService] \<rparr>"

definition stopService_try :: "response \<Rightarrow> ServiceState \<Rightarrow> (ServiceState \<times> jsval) outcome" where
  "stopService_try r s =
     (case r of
        Rejected \<Rightarrow> Throws
      | Resolved result \<Rightarrow>
          if nullish result then Throws
          else if truthy (js_prop result ''success'') then
            Returns (s\<lparr> isRunning := JBool False, message := js_prop result ''message'' \<rparr>, JBool True)
          else
            Returns (s\<lparr> isRunning := JBool False, error := js_prop result ''error'' \<rparr>, JBool False))"

definition stopService_complete :: "response \<Rightarrow> controller \<Rightarrow> controller \<times> jsval" where
  "stopService_complete r c =
     (let (s', ret) = (case stopService_try r (serviceState c) of
                         Returns x \<Rightarrow> x
                       | Throws \<Rightarrow> ((serviceState c)\<lparr> isRunning := JBool False,
                                                       error := JStr ''Failed to stop service'' \<rparr>,
                                     JBool False))
      in (c\<lparr> serviceState := s', loading := (loading c)\<lparr> stopping := False \<rparr> \<rparr>, ret))"

subsection \<open>loadInternVideo2\<close>

definition loadInternVideo2_begin :: "controller \<Rightarrow> controller" where
  "loadInternVideo2_begin c =
     c\<lparr> loading := (loading c)\<lparr> loadingInternVideo2 := True \<rparr>,
        invoked := invoked c @ [LoadInternVideo2] \<rparr>"

definition loadInternVideo2_try :: "response \<Rightarrow> ServiceState \<Rightarrow> (ServiceState \<times> jsval) outcome" where
  "loadInternVideo2_try r s =
     (case r of
        Rejected \<Rightarrow> Throws
      | Resolved result \<Rightarrow>
          if nullish result then Throws
          else if truthy (js_prop result ''success'') then
            Returns (s\<lparr> internvideo2Loaded := JBool True,
                        message := JStr ''InternVideo2 model loaded successfully'' \<rparr>, JBool True)
          else
            Returns (s\<lparr> error := js_prop result ''error'' \<rparr>, JBool False))"

definition loadInternVideo2_complete :: "response \<Rightarrow> controller \<Rightarrow> controller \<times> jsval" where
  "loadInternVideo2_complete r c =
     (let (s', ret) = (case loadInternVideo2_try r (serviceState c) of
                         Returns x \<Rightarrow> x
                       | Throws \<Rightarrow> ((serviceState c)\<lparr> error := JStr ''Failed to load InternVideo2 model'' \<rparr>,
                                     JBool False))
      in (c\<lparr> serviceState := s', loading := (loading c)\<lparr> loadingInternVideo2 := False \<rparr> \<rparr>, ret))"

subsection \<open>releaseInternVideo2\<close>

definition releaseInternVideo2_begin :: "controller \<Rightarrow> controller" where
  "releaseInternVideo2_begin c =
     c\<lparr> loading := (loading c)\<lparr> releasingInternVideo2 := True \<rparr>,
        invoked := invoked c @ [ReleaseInternVideo2] \<rparr>"

definition releaseInternVideo2_try :: "response \<Rightarrow> ServiceState \<Rightarrow> (ServiceState \<times> jsval) outcome" where
  "releaseInternVideo2_try r s =
     (case r of
        Rejected \<Rightarrow> Throws
      | Resolved result \<Rightarrow>
          if nullish result then Throws
          else if truthy (js_prop result ''success'') then
            Returns (s\<lparr> internvideo2Loaded := JBool False,
                        message := JStr ''InternVideo2 model released successfully'' \<rparr>, JBool True)
          else
            Returns (s\<lparr> error := js_prop result ''error'' \<rparr>, JBool False))"

definition releaseInternVideo2_complete :: "response \<Rightarrow> controller \<Rightarrow> controller \<times> jsval" where
  "releaseInternVideo2_complete r c =
     (let (s', ret) = (case releaseInternVideo2_try r (serviceState c) of
                         Returns x \<Rightarrow> x
                       | Throws \<Rightarrow> ((serviceState c)\<lparr> error := JStr ''Failed to release InternVideo2 model'' \<rparr>,
                                     JBool False))
      in (c\<lparr> serviceState := s', loading := (loading c)\<lparr> releasingInternVideo2 := False \<rparr> \<rparr>, ret))"

subsection \<open>checkInternVideo2Status\<close>

text \<open>No busy flag, no \<open>finally\<close>; the \<open>catch\<close> block only logs.\<close>

definition checkInternVideo2Status_begin :: "controller \<Rightarrow> controller" where
  "checkInternVideo2Status_begin c = c\<lparr> invoked := invoked c @ [Internvideo2Status] \<rparr>"

definition checkInternVideo2Status_try :: "response \<Rightarrow> ServiceState \<Rightarrow> ServiceState outcome" where
  "checkInternVideo2Status_try r s =
     (case r of
        Rejected \<Rightarrow> Throws
      | Resolved result \<Rightarrow>
          if nullish result then Throws
          else if truthy (js_prop result ''success'') then
            Returns (s\<lparr> internvideo2Loaded :=
                          js_or (js_opt_prop (js_prop result ''data'') ''loaded'') (JBool False) \<rparr>)
          else Returns s)"

definition checkInternVideo2Status_complete :: "response \<Rightarrow> controller \<Rightarrow> controller \<times> jsval" where
  "checkInternVideo2Status_complete r c =
     (let s' = (case checkInternVideo2Status_try r (serviceState c) of
                  Returns s1 \<Rightarrow> s1
                | Throws \<Rightarrow> serviceState c)
      in (c\<lparr> serviceState := s' \<rparr>, JUndefined))"

subsection \<open>Runs of the hook\<close>

datatype operation =
    OpCheckServiceStatus
  | OpStartService
  | OpStopService
  | OpLoadInternVideo2
  | OpReleaseInternVideo2
  | OpCheckInternVideo2Status

text \<open>
  A run is a sequence of events: an operation is called, or the Supervisor's answer to
  an earlier call arrives.  Calls and answers of different operations (and of several
  calls of the same one) interleave freely.
\<close>

datatype event = Call operation | Settle operation response

fun op_begin :: "operation \<Rightarrow> controller \<Rightarrow> controller" where
  "op_begin OpCheckServiceStatus = checkServiceStatus_begin"
| "op_begin OpStartService = startService_begin"
| "op_begin OpStopService = stopService_begin"
| "op_begin OpLoadInternVideo2 = loadInternVideo2_begin"
| "op_begin OpReleaseInternVideo2 = releaseInternVideo2_begin"
| "op_begin OpCheckInternVideo2Status = checkInternVideo2Status_begin"

fun op_complete :: "operation \<Rightarrow> response \<Rightarrow> controller \<Rightarrow> controller \<times> jsval" where
  "op_complete OpCheckServiceStatus = checkServiceStatus_complete"
| "op_complete OpStartService = startService_complete"
| "op_complete OpStopService = stopService_complete"
| "op_complete OpLoadInternVideo2 = loadInternVideo2_complete"
| "op_complete OpReleaseInternVideo2 = releaseInternVideo2_complete"
| "op_complete OpCheckInternVideo2Status = checkInternVideo2Status_complete"

fun step :: "event \<Rightarrow> controller \<Rightarrow> controller" where
  "step (Call op) c = op_begin op c"
| "step (Settle op r) c = fst (op_complete op r c)"

fun run :: "event list \<Rightarrow> controller \<Rightarrow> controller" where
  "run [] c = c"
| "run (e # es) c = run es (step e c)"

text \<open>
  One whole call with nothing in between.  The \<open>catch\<close> and \<open>finally\<close> blocks contain
  no operation that can throw, so the call always returns.
\<close>

definition checkServiceStatus :: "response \<Rightarrow> controller \<Rightarrow> (controller \<times> jsval) outcome" where
  "checkServiceStatus r c = Returns (checkServiceStatus_complete r (checkServiceStatus_begin c))"

section \<open>\<open>RemoteVideoService.checkHealth\<close>\<close>

text \<open>
  \<open>fetch\<close> rejects on a network or connection failure and resolves with a response
  otherwise; \<open>ok\<close> is the response's flag for a 2xx status.
\<close>

datatype fetch_result = FetchRejects | FetchResolves (ok: bool)

definition checkHealth :: "fetch_result \<Rightarrow> bool outcome" where
  "checkHealth f =
     (case (case f of FetchRejects \<Rightarrow> Throws | FetchResolves b \<Rightarrow> Returns b) of
        Returns v \<Rightarrow> Returns v
      | Throws \<Rightarrow> Returns False)"

text \<open>The Supervisor endpoint each operation calls.\<close>

fun api_of :: "operation \<Rightarrow> api_call" where
  "api_of OpCheckServiceStatus = SystemStatus"
| "api_of OpStartService = StartService"
| "api_of OpStopService = StopService"
| "api_of OpLoadInternVideo2 = LoadInternVideo2"
| "api_of OpReleaseInternVideo2 = ReleaseInternVideo2"
| "api_of OpCheckInternVideo2Status = Internvideo2Status"

text \<open>A state of the hook in which the service runs and the model is loaded.\<close>

definition running_and_loaded :: controller where
  "running_and_loaded =
     initial\<lparr> serviceState := (serviceState initial)\<lparr> isRunning := JBool True,
                                                       internvideo2Loaded := JBool True \<rparr> \<rparr>"

section \<open>The model file handlers of the main process\<close>

subsection \<open>Paths and the file system\<close>

text \<open>
  A path is its list of components; \<open>join\<close> appends one (the handlers only append
  fixed names to \<open>storeDirectory\<close>).  The file system is the set of the paths that
  exist and that the process can reach: \<open>existsSync\<close> and \<open>access\<close> both ask for
  membership.  What the operating system decides is a parameter: whether \<open>mkdirSync\<close>
  and \<open>rmSync\<close> throw, and with which message.
\<close>

type_synonym path = "string list"

definition join :: "path \<Rightarrow> string \<Rightarrow> path" where
  "join p c = p @ [c]"

record os =
  mkdir_error :: "path \<Rightarrow> string option"
  rm_error :: "path \<Rightarrow> string option"

definition existsSync :: "path set \<Rightarrow> path \<Rightarrow> bool" where
  "existsSync files p = (p \<in> files)"

definition access :: "path set \<Rightarrow> path \<Rightarrow> unit outcome" where
  "access files p = (if p \<in> files then Returns () else Throws)"

text \<open>\<open>mkdirSync(p, {recursive: true})\<close>: creates \<open>p\<close> and its missing ancestors, or throws.\<close>

definition mkdirSync :: "os \<Rightarrow> path \<Rightarrow> path set \<Rightarrow> string + path set" where
  "mkdirSync sys p files =
     (case mkdir_error sys p of
        Some msg \<Rightarrow> Inl msg
      | None \<Rightarrow> Inr (files \<union> set (prefixes p)))"

text \<open>
  \<open>rmSync(d, {recursive: true, force: true})\<close>: removes \<open>d\<close> and everything below it
  (nothing when \<open>d\<close> does not exist), or throws; a removal that throws is modelled as
  having removed nothing.
\<close>

definition rmSync :: "os \<Rightarrow> path \<Rightarrow> path set \<Rightarrow> string + path set" where
  "rmSync sys d files =
     (case rm_error sys d of
        Some msg \<Rightarrow> Inl msg
      | None \<Rightarrow> Inr {q \<in> files. \<not> prefix d q})"

text \<open>Every existing path other than the root lies in an existing directory.\<close>

definition fs_closed :: "path set \<Rightarrow> bool" where
  "fs_closed files = (\<forall>p \<in> files. p \<noteq> [] \<longrightarrow> butlast p \<in> files)"

definition model_path :: "path \<Rightarrow> path" where
  "model_path storeDirectory = join (join storeDirectory ''checkpoints'') ''InternVideo2_1B_S2.pth''"

subsection \<open>The handler of \<open>check-model-files\<close>\<close>

text \<open>
  \<open>storeDirectory\<close> is \<open>None\<close> when the renderer passes no directory (\<open>undefined\<close>):
  \<open>join\<close> then throws a TypeError, which the outer \<open>catch\<close> turns into
  \<open>{internvideo2: false}\<close>.
\<close>

definition check_model_files :: "path option \<Rightarrow> path set \<Rightarrow> jsval outcome" where
  "check_model_files storeDirectory files =
     (case (case storeDirectory of
              None \<Rightarrow> Throws
            | Some sd \<Rightarrow>
                (let internvideo2Path = join (join sd ''checkpoints'') ''InternVideo2_1B_S2.pth'';
                     internvideo2 = (case access files internvideo2Path of
                                       Returns u \<Rightarrow> True
                                     | Throws \<Rightarrow> False)
                 in Returns (JObj [(''internvideo2'', JBool internvideo2)]))) of
        Returns v \<Rightarrow> Returns v
      | Throws \<Rightarrow> Returns (JObj [(''internvideo2'', JBool False)]))"

subsection \<open>The handler of \<open>download-internvideo2\<close>\<close>

text \<open>
  What the handler acts on outside itself: the file system, the HTTPS requests made so
  far (their URLs), and the \<open>download-progress\<close> messages sent to the renderer.
\<close>

record world =
  fs :: "path set"
  requests :: "string list"
  sent :: "jsval list"

definition url :: string where
  "url = ''https://huggingface.co/OpenGVLab/InternVideo2_1B_Sty/resolve/main/InternVideo2_1B_S2.pth''"

text \<open>The request's inactivity timeout, in milliseconds.\<close>

definition timeout_ms :: nat where
  "timeout_ms = 300000"

text \<open>
  The variables of one handler call that its callbacks share; \<open>listening\<close> says that
  the response callback has run with status 200 and has registered the \<open>data\<close>,
  \<open>finish\<close> and \<open>error\<close> listeners; \<open>resolved\<close> is the value the promise was resolved
  with (only the first \<open>resolve\<close> counts).
\<close>

record download_task =
  checkpointsDir :: path
  internvideo2Path :: path
  downloadedBytes :: nat
  totalBytes :: nat
  listening :: bool
  resolved :: "jsval option"

definition failure :: "string \<Rightarrow> jsval" where
  "failure msg = JObj [(''success'', JBool False), (''error'', JStr msg)]"

definition already_exists :: jsval where
  "already_exists = JObj [(''success'', JBool True), (''message'', JStr ''InternVideo2 model already exists'')]"

definition download_completed :: jsval where
  "download_completed = JObj [(''success'', JBool True), (''message'', JStr ''InternVideo2 download completed'')]"

text \<open>
  The message of the TypeError that \<open>mkdirSync\<close> throws when \<open>storeDirectory\<close> is
  \<open>undefined\<close> (Node's text).
\<close>

definition invalid_path_message :: string where
  "invalid_path_message =
     ''The \"path\" argument must be of type string or an instance of Buffer or URL. Received undefined''"

text \<open>
  The handler up to the promise: it creates the directories, returns at once when the
  model file is there, and otherwise opens the write stream (which creates the file;
  Node opens it a little later, the model at the call) and sends the request.  An
  exception of \<open>mkdirSync\<close> goes to the outer \<open>catch\<close>; with no \<open>storeDirectory\<close>,
  \<open>existsSync\<close> answers \<open>false\<close> and \<open>mkdirSync\<close> throws.
\<close>

definition download_start :: "os \<Rightarrow> path option \<Rightarrow> world \<Rightarrow> world \<times> (jsval + download_task)" where
  "download_start sys storeDirectory w =
     (case storeDirectory of
        None \<Rightarrow> (w, Inl (failure invalid_path_message))
      | Some sd \<Rightarrow>
          (case (if \<not> existsSync (fs w) sd then mkdirSync sys sd (fs w) else Inr (fs w)) of
             Inl msg \<Rightarrow> (w, Inl (failure msg))
           | Inr fs1 \<Rightarrow>
               (let cdir = join sd ''checkpoints'' in
                case (if \<not> existsSync fs1 cdir then mkdirSync sys cdir fs1 else Inr fs1) of
                  Inl msg \<Rightarrow> (w\<lparr> fs := fs1 \<rparr>, Inl (failure msg))
                | Inr fs2 \<Rightarrow>
                    (let p = join cdir ''InternVideo2_1B_S2.pth'' in
                     case access fs2 p of
                       Returns u \<Rightarrow> (w\<lparr> fs := fs2 \<rparr>, Inl already_exists)
                     | Throws \<Rightarrow>
                         (w\<lparr> fs := insert p fs2, requests := requests w @ [url] \<rparr>,
                          Inr \<lparr> checkpointsDir = cdir, internvideo2Path = p,
                                downloadedBytes = 0, totalBytes = 0,
                                listening = False, resolved = None \<rparr>)))))"

text \<open>What can happen to the request and the write stream afterwards.\<close>

datatype net_event =
    Response nat string "nat option"
  | Data nat
  | FileFinish
  | FileError string
  | RequestError string
  | Timeout

text \<open>Decimal digits of a number, for the template string of the HTTP error.\<close>

definition digit :: "nat \<Rightarrow> char" where
  "digit d = ''0123456789'' ! d"

function string_of_nat :: "nat \<Rightarrow> string" where
  "string_of_nat n =
     (if n < 10 then [digit n]
      else string_of_nat (n div 10) @ [digit (n mod 10)])"
  by pat_completeness auto
termination
  by (relation "measure id") auto

declare string_of_nat.simps [simp del]

definition resolve :: "jsval \<Rightarrow> download_task \<Rightarrow> download_task" where
  "resolve v t = (case resolved t of None \<Rightarrow> t\<lparr> resolved := Some v \<rparr> | Some v0 \<Rightarrow> t)"

text \<open>
  The cleanup that the four failure callbacks share: \<open>rmSync\<close> on the checkpoints
  directory inside a \<open>try\<close> whose \<open>catch\<close> only logs.
\<close>

definition cleanup :: "os \<Rightarrow> download_task \<Rightarrow> world \<Rightarrow> world" where
  "cleanup sys t w =
     (case rmSync sys (checkpointsDir t) (fs w) of
        Inr files \<Rightarrow> w\<lparr> fs := files \<rparr>
      | Inl msg \<Rightarrow> w)"

text \<open>
  \<open>Math.round((downloaded / total) * 100)\<close>, computed here on the reals where the code
  computes on doubles.
\<close>

definition progress :: "nat \<Rightarrow> nat \<Rightarrow> jsval" where
  "progress downloaded n = JNum (of_int \<lfloor>real downloaded / real n * 100 + 1 / 2\<rfloor>)"

text \<open>
  One callback.  The listeners on the response and on the write stream exist only once
  the response callback has run with status 200; an \<open>error\<close> event of the stream before
  that finds no listener of the handler.  \<open>contentLength\<close> is the number in the
  \<open>content-length\<close> header, \<open>None\<close> when the header is absent or no number; the
  total is then not positive and no progress is sent.
\<close>

fun download_event :: "os \<Rightarrow> net_event \<Rightarrow> world \<times> download_task \<Rightarrow> world \<times> download_task" where
  "download_event sys (Response statusCode statusMessage contentLength) (w, t) =
     (if statusCode \<noteq> 200 then
        (cleanup sys t w,
         resolve (failure (''HTTP '' @ string_of_nat statusCode @ '': '' @ statusMessage)) t)
      else
        (w, t\<lparr> totalBytes := (case contentLength of None \<Rightarrow> 0 | Some n \<Rightarrow> n),
                listening := True \<rparr>))"
| "download_event sys (Data n) (w, t) =
     (if listening t then
        (let d = downloadedBytes t + n in
         (if totalBytes t > 0 then
            w\<lparr> sent := sent w @ [JObj [(''type'', JStr ''internvideo2''),
                                         (''progress'', progress d (totalBytes t)),
                                         (''downloaded'', JNum (real d)),
                                         (''total'', JNum (real (totalBytes t)))]] \<rparr>
          else w,
          t\<lparr> downloadedBytes := d \<rparr>))
      else (w, t))"
| "download_event sys FileFinish (w, t) =
     (if listening t then (w, resolve download_completed t) else (w, t))"
| "download_event sys (FileError msg) (w, t) =
     (if listening t then (cleanup sys t w, resolve (failure msg) t) else (w, t))"
| "download_event sys (RequestError msg) (w, t) =
     (cleanup sys t w, resolve (failure msg) t)"
| "download_event sys Timeout (w, t) =
     (cleanup sys t w, resolve (failure ''Download timeout'') t)"

text \<open>
  The callbacks run one after the other until the promise is resolved: the state then
  is the one in which the handler's caller gets the result.
\<close>

fun download_run :: "os \<Rightarrow> net_event list \<Rightarrow> world \<times> download_task \<Rightarrow> world \<times> download_task" where
  "download_run sys [] st = st"
| "download_run sys (e # es) st =
     (if resolved (snd st) \<noteq> None then st else download_run sys es (download_event sys e st))"

text \<open>
  One call of the handler: the world when the call ends and the result, \<open>None\<close> when
  the events given do not resolve the promise.
\<close>

definition download :: "os \<Rightarrow> path option \<Rightarrow> net_event list \<Rightarrow> world \<Rightarrow> world \<times> jsval option" where
  "download sys storeDirectory evs w =
     (case download_start sys storeDirectory w of
        (w1, Inl v) \<Rightarrow> (w1, Some v)
      | (w1, Inr t) \<Rightarrow>
          (case download_run sys evs (w1, t) of (w2, t2) \<Rightarrow> (w2, resolved t2)))"

section \<open>The remote backend handlers and \<open>RemoteVideoService\<close>\<close>

subsection \<open>The handler of \<open>remote-backend:upload-video\<close>\<close>

text \<open>The message of the TypeError for reading property \<open>k\<close> of \<open>null\<close> or \<open>undefined\<close> (V8's text).\<close>

fun type_error_message :: "jsval \<Rightarrow> string \<Rightarrow> string" where
  "type_error_message JNull k = ''Cannot read properties of null (reading '' @ [CHR 0x27] @ k @ [CHR 0x27] @ '')''"
| "type_error_message v k = ''Cannot read properties of undefined (reading '' @ [CHR 0x27] @ k @ [CHR 0x27] @ '')''"

definition upload_refused :: string where
  "upload_refused = ''Frontend should use RemoteVideoService directly. IPC cannot handle File objects.''"

text \<open>
  The handler takes the payload \<open>{file, config, onProgress}\<close> apart in its parameter
  list, which throws outside the \<open>try\<close> block when the payload is \<open>null\<close> or
  \<open>undefined\<close>.  Inside the \<open>try\<close> block it logs \<open>file.name\<close> and returns the refusal;
  the \<open>catch\<close> block returns the message of what was thrown.  The second component is
  the list of the network requests made: the handler makes none.
\<close>

definition upload_video_handler :: "jsval \<Rightarrow> (jsval \<times> string list) outcome" where
  "upload_video_handler payload =
     (if nullish payload then Throws
      else
        (let file = js_prop payload ''file'' in
         case (if nullish file then Inl (type_error_message file ''name'')
               else Inr (JObj [(''success'', JBool False), (''error'', JStr upload_refused)])) of
           Inr v \<Rightarrow> Returns (v, [])
         | Inl msg \<Rightarrow> Returns (JObj [(''success'', JBool False), (''error'', JStr msg)], [])))"

subsection \<open>The configuration sent with an upload and with a processing request\<close>

text \<open>
  \<open>{...config}\<close>: the own properties of an object, nothing for \<open>null\<close>, \<open>undefined\<close>
  and other primitives (a non-empty string would spread its characters; a configuration
  is not a string).
\<close>

fun spread :: "jsval \<Rightarrow> (string \<times> jsval) list" where
  "spread (JObj kvs) = kvs"
| "spread v = []"

text \<open>\<open>a !== b\<close> as a value.\<close>

definition strict_neq :: "jsval \<Rightarrow> jsval \<Rightarrow> jsval" where
  "strict_neq a b = JBool (a \<noteq> b)"

text \<open>\<open>uploadConfig\<close> of \<open>RemoteVideoService.uploadVideo\<close>, which reads with \<open>config?.\<close>.\<close>

definition uploadConfig :: "jsval \<Rightarrow> jsval" where
  "uploadConfig config =
     JObj (AList.update ''max_duration'' (js_or (js_opt_prop config ''max_duration'') (JNum 12))
          (AList.update ''min_duration'' (js_or (js_opt_prop config ''min_duration'') (JNum 5))
          (AList.update ''scene_threshold'' (js_or (js_opt_prop config ''scene_threshold'') (JNum (2 / 10)))
          (AList.update ''detect_scenes'' (strict_neq (js_opt_prop config ''detect_scenes'') (JBool False))
          (AList.update ''target_fps'' (JNum 1)
          (spread config))))))"

text \<open>
  \<open>processConfig\<close> of the \<open>remote-backend:process-video\<close> handler, which reads with
  \<open>config.\<close> and so throws on \<open>null\<close> and \<open>undefined\<close>; the handler then sends nothing.
\<close>

definition processConfig :: "jsval \<Rightarrow> jsval outcome" where
  "processConfig config =
     (if nullish config then Throws
      else Returns (JObj
          (AList.update ''generate_embeddings'' (strict_neq (js_prop config ''generate_embeddings'') (JBool False))
          (AList.update ''max_duration'' (js_or (js_prop config ''max_duration'') (JNum 12))
          (AList.update ''min_duration'' (js_or (js_prop config ''min_duration'') (JNum 5))
          (AList.update ''scene_threshold'' (js_or (js_prop config ''scene_threshold'') (JNum (2 / 10)))
          (AList.update ''detect_scenes'' (strict_neq (js_prop config ''detect_scenes'') (JBool False))
          (AList.update ''target_fps'' (JNum 1)
          (spread config)))))))))"

section \<open>Invariants and sample inputs\<close>

text \<open>
  While a download is pending, and when it has ended with success, the model file
  exists (and the file system is well formed).
\<close>

definition file_kept :: "path \<Rightarrow> world \<times> download_task \<Rightarrow> bool" where
  "file_kept p st =
     (fs_closed (fs (fst st)) \<and> internvideo2Path (snd st) = p \<and>
      (case resolved (snd st) of
         None \<Rightarrow> p \<in> fs (fst st)
       | Some v \<Rightarrow> truthy (js_prop v ''success'') \<longrightarrow> p \<in> fs (fst st)))"

text \<open>When a download has ended with a failure, nothing is left at or below \<open>d\<close>.\<close>

definition failed_clean :: "path \<Rightarrow> world \<times> download_task \<Rightarrow> bool" where
  "failed_clean d st =
     (checkpointsDir (snd st) = d \<and>
      (case resolved (snd st) of
         None \<Rightarrow> True
       | Some v \<Rightarrow> truthy (js_prop v ''success'') \<or> {q \<in> fs (fst st). prefix d q} = {}))"

text \<open>An operating system that lets every call through, and one that refuses removals.\<close>

definition permissive :: os where
  "permissive = \<lparr> mkdir_error = (\<lambda>p. None), rm_error = (\<lambda>p. None) \<rparr>"

definition rm_denied :: os where
  "rm_denied = \<lparr> mkdir_error = (\<lambda>p. None),
                 rm_error = (\<lambda>p. Some ''EACCES: permission denied'') \<rparr>"

text \<open>
  A store directory \<open>models\<close> without the model, with the model, and as one download of
  ten bytes leaves it.
\<close>

definition fresh_world :: world where
  "fresh_world = \<lparr> fs = {[], [''models'']}, requests = [], sent = [] \<rparr>"

definition model_world :: world where
  "model_world = \<lparr> fs = {[], [''models''], [''models'', ''checkpoints''],
                           [''models'', ''checkpoints'', ''InternVideo2_1B_S2.pth'']},
                     requests = [], sent = [] \<rparr>"

definition downloaded_world :: world where
  "downloaded_world =
     \<lparr> fs = {[], [''models''], [''models'', ''checkpoints''],
              [''models'', ''checkpoints'', ''InternVideo2_1B_S2.pth'']},
       requests = [url],
       sent = [JObj [(''type'', JStr ''internvideo2''), (''progress'', JNum 100),
                     (''downloaded'', JNum 10), (''total'', JNum 10)]] \<rparr>"

section \<open>Properties of the service hook\<close>

lemmas begin_defs =
  checkServiceStatus_begin_def startService_begin_def stopService_begin_def
  loadInternVideo2_begin_def releaseInternVideo2_begin_def checkInternVideo2Status_begin_def

lemmas complete_defs =
  checkServiceStatus_complete_def startService_complete_def stopService_complete_def
  loadInternVideo2_complete_def releaseInternVideo2_complete_def
  checkInternVideo2Status_complete_def

lemma invoked_op_begin: "invoked (op_begin op c) = invoked c @ [api_of op]"
  by (cases op) (simp_all add: begin_defs)

lemma invoked_op_complete: "invoked (fst (op_complete op r c)) = invoked c"
  by (cases op) (simp_all add: complete_defs Let_def split: prod.splits)

lemma count_invoked_step:
  "count_list (invoked (step e c)) StartService =
   count_list (invoked c) StartService + (if e = Call OpStartService then 1 else 0)"
proof (cases e)
  case (Call op)
  then show ?thesis
    using invoked_op_begin [of op c] by (cases op) simp_all
next
  case (Settle op r)
  then show ?thesis
    by (simp add: invoked_op_complete)
qed

lemma count_invoked_run:
  "count_list (invoked (run es c)) StartService =
   count_list (invoked c) StartService + count_list es (Call OpStartService)"
proof (induction es arbitrary: c)
  case Nil
  show ?case by simp
next
  case (Cons e es)
  show ?case
    by (simp add: Cons.IH count_invoked_step)
qed

text \<open>
  C8.  A probe that meets a network or connection failure reports the backend as not
  running and does not escalate: \<open>checkHealth\<close> gives \<open>false\<close> when \<open>fetch\<close> rejects and
  throws on no input; \<open>checkServiceStatus\<close>, when the status call rejects or answers
  without success, returns normally with \<open>isRunning\<close> and \<open>internvideo2Loaded\<close> both
  \<open>false\<close>.
\<close>

theorem probe_failure_means_not_running:
  assumes "r = Rejected \<or> (\<exists>result. r = Resolved result \<and> \<not> truthy (js_prop result ''success''))"
  shows "checkHealth FetchRejects = Returns False \<and> checkHealth f \<noteq> Throws \<and>
         (\<exists>c'. checkServiceStatus r c = Returns (c', JUndefined) \<and>
               isRunning (serviceState c') = JBool False \<and>
               internvideo2Loaded (serviceState c') = JBool False)"
proof -
  have health: "checkHealth FetchRejects = Returns False \<and> checkHealth f \<noteq> Throws"
    by (cases f) (simp_all add: checkHealth_def)
  have try_fails: "case checkServiceStatus_try r s of
        Throws \<Rightarrow> True
      | Returns s' \<Rightarrow> isRunning s' = JBool False \<and> internvideo2Loaded s' = JBool False" for s
  proof (cases r)
    case Rejected
    then show ?thesis by (simp add: checkServiceStatus_try_def)
  next
    case (Resolved result)
    with assms have "\<not> truthy (js_prop result ''success'')" by simp
    with Resolved show ?thesis by (simp add: checkServiceStatus_try_def)
  qed
  have "isRunning (serviceState (fst (checkServiceStatus_complete r d))) = JBool False \<and>
        internvideo2Loaded (serviceState (fst (checkServiceStatus_complete r d))) = JBool False \<and>
        snd (checkServiceStatus_complete r d) = JUndefined" for d
    using try_fails [of "serviceState d"]
    by (cases "checkServiceStatus_try r (serviceState d)")
       (simp_all add: checkServiceStatus_complete_def)
  then show ?thesis
    using health by (simp add: checkServiceStatus_def prod_eq_iff)
qed

theorem probe_failure_means_not_running_witness:
  "checkHealth FetchRejects = Returns False \<and> checkHealth (FetchResolves True) \<noteq> Throws \<and>
   (\<exists>c'. checkServiceStatus (Resolved (JObj [(''success'', JBool False), (''error'', JStr ''connect ECONNREFUSED'')]))
            running_and_loaded = Returns (c', JUndefined) \<and>
         isRunning (serviceState c') = JBool False \<and>
         internvideo2Loaded (serviceState c') = JBool False)"
proof -
  have h: "Resolved (JObj [(''success'', JBool False), (''error'', JStr ''connect ECONNREFUSED'')]) = Rejected \<or>
           (\<exists>result. Resolved (JObj [(''success'', JBool False), (''error'', JStr ''connect ECONNREFUSED'')]) = Resolved result \<and>
                     \<not> truthy (js_prop result ''success''))"
    by simp
  show ?thesis
    by (rule probe_failure_means_not_running [OF h])
qed

text \<open>
  C7, as the code has it.  \<open>checkInternVideo2Status\<close> leaves every busy flag as it was,
  at the call and at the answer.  \<open>checkServiceStatus\<close> does set a busy flag: it sets
  \<open>checkingService\<close> to \<open>true\<close> at the call and to \<open>false\<close> when the answer arrives,
  and leaves the four other flags as they were.
\<close>

theorem status_checks_and_busy_flags:
  "loading (checkInternVideo2Status_begin c) = loading c \<and>
   loading (fst (checkInternVideo2Status_complete r c)) = loading c \<and>
   loading (checkServiceStatus_begin c) = (loading c)\<lparr> checkingService := True \<rparr> \<and>
   loading (fst (checkServiceStatus_complete r c)) = (loading c)\<lparr> checkingService := False \<rparr>"
  by (simp add: checkInternVideo2Status_begin_def checkInternVideo2Status_complete_def
      checkServiceStatus_begin_def checkServiceStatus_complete_def Let_def)

text \<open>
  C7 as stated fails: from the initial state, where \<open>checkingService\<close> is \<open>false\<close>, the
  flag is \<open>true\<close> once \<open>checkServiceStatus\<close> has been called.
\<close>

theorem checkServiceStatus_sets_busy_flag:
  "checkingService (loading initial) = False \<and>
   checkingService (loading (run [Call OpCheckServiceStatus] initial)) = True \<and>
   loading (run [Call OpCheckServiceStatus] initial) \<noteq> loading initial"
  by (simp add: initial_def checkServiceStatus_begin_def)

text \<open>
  C3, as the code has it.  \<open>startService\<close> has no re-entrancy check: every call, whatever
  the value of \<open>loading.starting\<close>, sets the flag and calls the Supervisor once; so over
  any run the number of start requests that reach the Supervisor is the number of
  \<open>startService\<close> calls (two for two concurrent calls).
\<close>

theorem startService_always_reaches_supervisor:
  "invoked (startService_begin c) = invoked c @ [StartService] \<and>
   starting (loading (startService_begin c)) = True \<and>
   count_list (invoked (run es c)) StartService =
     count_list (invoked c) StartService + count_list es (Call OpStartService)"
  by (simp add: startService_begin_def count_invoked_run)

text \<open>
  C3 as stated fails: after one \<open>startService\<close> call \<open>starting\<close> is \<open>true\<close>, and a second
  call made then reaches the Supervisor as well.
\<close>

theorem second_startService_reaches_supervisor:
  "starting (loading (run [Call OpStartService] initial)) = True \<and>
   invoked (run [Call OpStartService, Call OpStartService] initial) = [StartService, StartService]"
  by (simp add: initial_def startService_begin_def)

text \<open>
  C2, as the code has it.  \<open>loadInternVideo2\<close> does not look at \<open>isRunning\<close>: in every
  state the call sets \<open>loadingInternVideo2\<close> and calls the Supervisor's load endpoint
  once; it returns \<open>true\<close> exactly when the Supervisor answers with success, and
  \<open>false\<close> otherwise.
\<close>

theorem loadInternVideo2_always_reaches_supervisor:
  "invoked (loadInternVideo2_begin c) = invoked c @ [LoadInternVideo2] \<and>
   loadingInternVideo2 (loading (loadInternVideo2_begin c)) = True \<and>
   (snd (loadInternVideo2_complete r c) = JBool True \<or>
    snd (loadInternVideo2_complete r c) = JBool False) \<and>
   (snd (loadInternVideo2_complete r c) = JBool True) =
     (\<exists>result. r = Resolved result \<and> truthy (js_prop result ''success''))"
proof -
  have "nullish v \<Longrightarrow> \<not> truthy (js_prop v k)" for v k
    by (cases v) simp_all
  then show ?thesis
    by (cases r)
       (auto simp: loadInternVideo2_begin_def loadInternVideo2_complete_def
          loadInternVideo2_try_def Let_def)
qed

text \<open>
  C2 as stated fails: in the initial state the service is stopped, yet
  \<open>loadInternVideo2\<close> calls the Supervisor, and when the Supervisor answers with success
  the call returns \<open>true\<close>.
\<close>

theorem loadInternVideo2_while_stopped:
  "isRunning (serviceState initial) = JBool False \<and>
   invoked (run [Call OpLoadInternVideo2] initial) = [LoadInternVideo2] \<and>
   snd (loadInternVideo2_complete (Resolved (JObj [(''success'', JBool True)]))
          (loadInternVideo2_begin initial)) = JBool True"
  by (simp add: initial_def loadInternVideo2_begin_def loadInternVideo2_complete_def
      loadInternVideo2_try_def)




section \<open>Properties of the model file handlers\<close>

subsection \<open>The file system stays well formed\<close>

lemma fs_closed_mkdir: "fs_closed F \<Longrightarrow> fs_closed (F \<union> set (prefixes p))"
  unfolding fs_closed_def
proof (intro ballI impI)
  fix q
  assume c: "\<forall>p\<in>F. p \<noteq> [] \<longrightarrow> butlast p \<in> F"
    and q: "q \<in> F \<union> set (prefixes p)" and ne: "q \<noteq> []"
  show "butlast q \<in> F \<union> set (prefixes p)"
  proof (cases "q \<in> F")
    case True
    with c ne show ?thesis by simp
  next
    case False
    with q have "prefix q p" by (simp add: in_set_prefixes)
    moreover have "prefix (butlast q) q" by (rule prefixeq_butlast)
    ultimately have "prefix (butlast q) p" by (rule prefix_order.trans [rotated])
    then show ?thesis by (simp add: in_set_prefixes)
  qed
qed

lemma fs_closed_insert: "fs_closed F \<Longrightarrow> d \<in> F \<Longrightarrow> fs_closed (insert (join d c) F)"
  by (simp add: fs_closed_def join_def)

lemma fs_closed_rm: "fs_closed F \<Longrightarrow> fs_closed {q \<in> F. \<not> prefix d q}"
  unfolding fs_closed_def
proof (intro ballI impI)
  fix q
  assume c: "\<forall>p\<in>F. p \<noteq> [] \<longrightarrow> butlast p \<in> F"
    and q: "q \<in> {q \<in> F. \<not> prefix d q}" and ne: "q \<noteq> []"
  from q c ne have "butlast q \<in> F" by simp
  moreover have "\<not> prefix d (butlast q)"
  proof
    assume "prefix d (butlast q)"
    moreover have "prefix (butlast q) q" by (rule prefixeq_butlast)
    ultimately have "prefix d q" by (rule prefix_order.trans)
    with q show False by simp
  qed
  ultimately show "butlast q \<in> {q \<in> F. \<not> prefix d q}" by simp
qed

lemma fs_closed_cleanup: "fs_closed (fs w) \<Longrightarrow> fs_closed (fs (cleanup sys t w))"
  by (auto simp: cleanup_def rmSync_def fs_closed_rm split: option.splits)

lemma model_path_parents:
  "fs_closed F \<Longrightarrow> model_path sd \<in> F \<Longrightarrow> join sd ''checkpoints'' \<in> F \<and> sd \<in> F"
  unfolding fs_closed_def model_path_def join_def
  by (metis butlast_snoc snoc_eq_iff_butlast)

subsection \<open>The start of a download\<close>

lemma download_start_present:
  assumes "fs_closed (fs w)" and "model_path sd \<in> fs w"
  shows "download_start sys (Some sd) w = (w, Inl already_exists)"
  using model_path_parents [OF assms] assms(2)
  by (simp add: download_start_def existsSync_def access_def model_path_def)

lemma download_start_pending:
  assumes "fs_closed (fs w)" and "download_start sys (Some sd) w = (w1, Inr t)"
  shows "fs_closed (fs w1) \<and> model_path sd \<in> fs w1 \<and> internvideo2Path t = model_path sd \<and>
         checkpointsDir t = join sd ''checkpoints'' \<and> resolved t = None \<and>
         requests w1 = requests w @ [url]"
proof -
  obtain fs1 where fs1:
    "(if \<not> existsSync (fs w) sd then mkdirSync sys sd (fs w) else Inr (fs w)) = Inr fs1"
    using assms(2) by (auto simp: download_start_def split: sum.splits)
  then have c1: "fs_closed fs1"
    using assms(1) by (auto simp: mkdirSync_def fs_closed_mkdir split: if_splits option.splits)
  obtain fs2 where fs2:
    "(if \<not> existsSync fs1 (join sd ''checkpoints'')
      then mkdirSync sys (join sd ''checkpoints'') fs1 else Inr fs1) = Inr fs2"
    using assms(2) fs1 by (auto simp: download_start_def Let_def split: sum.splits)
  then have c2: "fs_closed fs2" and d2: "join sd ''checkpoints'' \<in> fs2"
    using c1
    by (auto simp: mkdirSync_def existsSync_def fs_closed_mkdir in_set_prefixes
        split: if_splits option.splits)
  have "w1 = w\<lparr> fs := insert (model_path sd) fs2, requests := requests w @ [url] \<rparr> \<and>
        t = \<lparr> checkpointsDir = join sd ''checkpoints'', internvideo2Path = model_path sd,
              downloadedBytes = 0, totalBytes = 0, listening = False, resolved = None \<rparr>"
    using assms(2) fs1 fs2
    by (auto simp: download_start_def Let_def model_path_def split: outcome.splits)
  then show ?thesis
    using c2 d2 fs_closed_insert [OF c2 d2, of "''InternVideo2_1B_S2.pth''"]
    by (simp add: model_path_def)
qed

lemma download_start_success:
  assumes "fs_closed (fs w)" and "download_start sys (Some sd) w = (w1, Inl v)"
    and "truthy (js_prop v ''success'')"
  shows "fs_closed (fs w1) \<and> model_path sd \<in> fs w1"
proof -
  obtain fs1 where fs1:
    "(if \<not> existsSync (fs w) sd then mkdirSync sys sd (fs w) else Inr (fs w)) = Inr fs1"
    using assms(2,3) by (auto simp: download_start_def failure_def split: sum.splits)
  then have c1: "fs_closed fs1"
    using assms(1) by (auto simp: mkdirSync_def fs_closed_mkdir split: if_splits option.splits)
  obtain fs2 where fs2:
    "(if \<not> existsSync fs1 (join sd ''checkpoints'')
      then mkdirSync sys (join sd ''checkpoints'') fs1 else Inr fs1) = Inr fs2"
    using assms(2,3) fs1
    by (auto simp: download_start_def Let_def failure_def split: sum.splits)
  then have c2: "fs_closed fs2"
    using c1 by (auto simp: mkdirSync_def fs_closed_mkdir split: if_splits option.splits)
  have "w1 = w\<lparr> fs := fs2 \<rparr> \<and> model_path sd \<in> fs2"
    using assms(2) fs1 fs2
    by (auto simp: download_start_def Let_def model_path_def access_def
        split: outcome.splits if_splits)
  then show ?thesis using c2 by simp
qed

lemma download_start_no_request:
  assumes "download_start sys (Some sd) w = (w1, Inl v)"
  shows "requests w1 = requests w"
  using assms
  by (auto simp: download_start_def Let_def split: sum.splits outcome.splits if_splits)

subsection \<open>The callbacks of a download\<close>

lemma file_kept_event:
  assumes "file_kept p (w, t)" and "resolved t = None"
  shows "file_kept p (download_event sys ev (w, t))"
  using assms
  by (cases ev)
     (auto simp: file_kept_def resolve_def failure_def download_completed_def Let_def
        fs_closed_cleanup)

lemma file_kept_run: "file_kept p st \<Longrightarrow> file_kept p (download_run sys evs st)"
proof (induction evs arbitrary: st)
  case Nil
  then show ?case by simp
next
  case (Cons e es)
  show ?case
  proof (cases "resolved (snd st) = None")
    case True
    with Cons.prems have "file_kept p (download_event sys e st)"
      using file_kept_event [of p "fst st" "snd st" sys e] by simp
    with True Cons.IH show ?thesis by simp
  next
    case False
    with Cons.prems show ?thesis by simp
  qed
qed

lemma cleanup_removes:
  "rm_error sys (checkpointsDir t) = None \<Longrightarrow>
   {q \<in> fs (cleanup sys t w). prefix (checkpointsDir t) q} = {}"
  by (auto simp: cleanup_def rmSync_def)

lemma failure_events_resolve:
  assumes "resolved t = None"
    and "(\<exists>c m l. ev = Response c m l \<and> c \<noteq> 200) \<or> (\<exists>m. ev = FileError m \<and> listening t) \<or>
         (\<exists>m. ev = RequestError m) \<or> ev = Timeout"
  shows "\<exists>msg. resolved (snd (download_event sys ev (w, t))) = Some (failure msg)"
  using assms by (auto simp: resolve_def)

lemma failed_clean_event:
  assumes "failed_clean d (w, t)" and "resolved t = None" and "rm_error sys d = None"
  shows "failed_clean d (download_event sys ev (w, t))"
proof -
  have d: "checkpointsDir t = d"
    using assms(1) by (simp add: failed_clean_def)
  have rm: "{q \<in> fs (cleanup sys t w). prefix d q} = {}"
    using cleanup_removes [of sys t w] assms(3) d by simp
  show ?thesis
    using assms(2) d rm
    by (cases ev)
       (simp_all add: failed_clean_def resolve_def download_completed_def Let_def)
qed

lemma failed_clean_run:
  "failed_clean d st \<Longrightarrow> rm_error sys d = None \<Longrightarrow> failed_clean d (download_run sys evs st)"
proof (induction evs arbitrary: st)
  case Nil
  then show ?case by simp
next
  case (Cons e es)
  show ?case
  proof (cases "resolved (snd st) = None")
    case True
    with Cons.prems have "failed_clean d (download_event sys e st)"
      using failed_clean_event [of d "fst st" "snd st" sys e] by simp
    with True Cons show ?thesis by simp
  next
    case False
    with Cons.prems show ?thesis by simp
  qed
qed

subsection \<open>Whole downloads\<close>

lemma download_success_keeps_file:
  assumes "fs_closed (fs w)" and "download sys (Some sd) evs w = (w1, Some v)"
    and "truthy (js_prop v ''success'')"
  shows "fs_closed (fs w1) \<and> model_path sd \<in> fs w1"
proof (cases "download_start sys (Some sd) w")
  case (Pair w0 res)
  show ?thesis
  proof (cases res)
    case (Inl v0)
    with Pair assms(2) have "w1 = w0" "v0 = v" by (simp_all add: download_def)
    with Pair Inl assms show ?thesis using download_start_success by blast
  next
    case (Inr t)
    from download_start_pending [OF assms(1)] Pair Inr
    have "file_kept (model_path sd) (w0, t)" by (simp add: file_kept_def)
    then have k: "file_kept (model_path sd) (download_run sys evs (w0, t))"
      by (rule file_kept_run)
    obtain t2 where "download_run sys evs (w0, t) = (w1, t2)" "resolved t2 = Some v"
      using Pair Inr assms(2) by (auto simp: download_def split: prod.splits)
    with k assms(3) show ?thesis by (simp add: file_kept_def)
  qed
qed

lemma download_present:
  assumes "fs_closed (fs w)" and "model_path sd \<in> fs w"
  shows "download sys (Some sd) evs w = (w, Some already_exists)"
  by (simp add: download_def download_start_present [OF assms])

lemma fresh_download:
  "download permissive (Some [''models''])
     [Response 200 ''OK'' (Some 10), Data 10, FileFinish] fresh_world =
   (downloaded_world, Some download_completed)"
  apply (simp add: download_def download_start_def permissive_def fresh_world_def
      downloaded_world_def existsSync_def mkdirSync_def access_def join_def resolve_def
      progress_def Let_def)
  apply auto
  done

lemma http_500_download:
  "download permissive (Some [''models''])
     [Response 500 ''Internal Server Error'' None] fresh_world =
   (fresh_world\<lparr> requests := [url] \<rparr>, Some (failure ''HTTP 500: Internal Server Error''))"
  apply (simp add: download_def download_start_def permissive_def fresh_world_def existsSync_def
      mkdirSync_def access_def join_def resolve_def cleanup_def rmSync_def Let_def failure_def
      digit_def string_of_nat.simps)
  apply auto
  done

text \<open>
  C6.  For every store directory, \<open>check-model-files\<close> returns (it never throws), and
  the flag it returns is \<open>true\<close> exactly when \<open>access\<close> succeeds on
  \<open>storeDirectory/checkpoints/InternVideo2_1B_S2.pth\<close>; it is \<open>false\<close> in every other
  case, a missing directory argument included.
\<close>

theorem check_model_files_presence:
  "check_model_files storeDirectory files =
     Returns (JObj [(''internvideo2'',
        JBool (\<exists>sd. storeDirectory = Some sd \<and> access files (model_path sd) = Returns ()))])"
  by (cases storeDirectory) (simp_all add: check_model_files_def access_def model_path_def)

text \<open>
  C4.  On a well-formed file system: when the model file exists at the call, the
  download handler returns success at once and leaves the world as it was, so it makes
  no network request; and after any call that returned success, a second call with the
  same store directory returns at once in the same way, whatever the operating system
  and the network would do.
\<close>

theorem download_existing_no_network:
  assumes "fs_closed (fs w)"
  shows "(access (fs w) (model_path sd) = Returns () \<longrightarrow>
            download sys (Some sd) evs w = (w, Some already_exists)) \<and>
         (download sys (Some sd) evs w = (w1, Some v) \<and> truthy (js_prop v ''success'') \<longrightarrow>
            download sys2 (Some sd) evs2 w1 = (w1, Some already_exists))"
proof (intro conjI impI)
  assume "access (fs w) (model_path sd) = Returns ()"
  then have "model_path sd \<in> fs w"
    by (simp add: access_def split: if_splits)
  with assms show "download sys (Some sd) evs w = (w, Some already_exists)"
    by (rule download_present)
next
  assume "download sys (Some sd) evs w = (w1, Some v) \<and> truthy (js_prop v ''success'')"
  with assms have "fs_closed (fs w1) \<and> model_path sd \<in> fs w1"
    using download_success_keeps_file by blast
  then show "download sys2 (Some sd) evs2 w1 = (w1, Some already_exists)"
    using download_present by blast
qed

text \<open>
  The model is there: the call returns at once.  The model is not there: the first call
  downloads it with one request, and a second call, even with a network that would time
  out, returns at once and the request log still holds that one request.
\<close>

theorem download_existing_no_network_witness:
  "download permissive (Some [''models'']) [] model_world = (model_world, Some already_exists) \<and>
   download permissive (Some [''models''])
     [Response 200 ''OK'' (Some 10), Data 10, FileFinish] fresh_world =
     (downloaded_world, Some download_completed) \<and>
   download rm_denied (Some [''models'']) [Timeout] downloaded_world =
     (downloaded_world, Some already_exists) \<and>
   requests downloaded_world = [url]"
proof -
  have c1: "fs_closed (fs model_world)"
    by (simp add: fs_closed_def model_world_def)
  have a1: "access (fs model_world) (model_path [''models'']) = Returns ()"
    by (simp add: access_def model_world_def model_path_def join_def)
  have c2: "fs_closed (fs fresh_world)"
    by (simp add: fs_closed_def fresh_world_def)
  have s2: "truthy (js_prop download_completed ''success'')"
    by (simp add: download_completed_def)
  from download_existing_no_network [OF c1, of "[''models'']" permissive "[]"] a1
  have first: "download permissive (Some [''models'']) [] model_world =
      (model_world, Some already_exists)"
    by blast
  from download_existing_no_network [OF c2, of "[''models'']" permissive
      "[Response 200 ''OK'' (Some 10), Data 10, FileFinish]" downloaded_world
      download_completed rm_denied "[Timeout]"]
    fresh_download s2
  have second: "download rm_denied (Some [''models'']) [Timeout] downloaded_world =
      (downloaded_world, Some already_exists)"
    by blast
  show ?thesis
    using first second fresh_download by (simp add: downloaded_world_def)
qed

text \<open>
  C5, as the code has it.  Every download call that has sent its request and returns a
  failure (a response with a status other than 200, an error of the write stream, an
  error of the request, or the timeout, which is set to 300 seconds) has called
  \<open>rmSync\<close> on the whole checkpoints directory before: when that removal does not
  throw, nothing is left at or below the checkpoints directory when the failure is
  returned.
\<close>

theorem download_failure_removes_checkpoints:
  assumes "download sys (Some sd) evs w = (w2, Some v)"
    and "\<not> truthy (js_prop v ''success'')"
    and "requests w2 \<noteq> requests w"
    and "rm_error sys (join sd ''checkpoints'') = None"
  shows "{q \<in> fs w2. prefix (join sd ''checkpoints'') q} = {} \<and> timeout_ms = 300 * 1000"
proof (cases "download_start sys (Some sd) w")
  case (Pair w0 res)
  show ?thesis
  proof (cases res)
    case (Inl v0)
    with Pair assms(1) have "w2 = w0" by (simp add: download_def)
    with Pair Inl assms(3) show ?thesis using download_start_no_request by blast
  next
    case (Inr t)
    have "checkpointsDir t = join sd ''checkpoints'' \<and> resolved t = None"
      using Pair Inr
      by (auto simp: download_start_def Let_def split: sum.splits outcome.splits if_splits)
    then have "failed_clean (join sd ''checkpoints'') (w0, t)"
      by (simp add: failed_clean_def)
    then have k: "failed_clean (join sd ''checkpoints'') (download_run sys evs (w0, t))"
      using assms(4) by (rule failed_clean_run)
    obtain t2 where "download_run sys evs (w0, t) = (w2, t2)" "resolved t2 = Some v"
      using Pair Inr assms(1) by (auto simp: download_def split: prod.splits)
    with k assms(2) show ?thesis by (simp add: failed_clean_def timeout_ms_def)
  qed
qed

text \<open>An HTTP 500 answer: afterwards the store directory holds no checkpoints directory.\<close>

theorem download_failure_removes_checkpoints_witness:
  "download permissive (Some [''models''])
     [Response 500 ''Internal Server Error'' None] fresh_world =
     (fresh_world\<lparr> requests := [url] \<rparr>, Some (failure ''HTTP 500: Internal Server Error'')) \<and>
   {q \<in> fs (fresh_world\<lparr> requests := [url] \<rparr>). prefix (join [''models''] ''checkpoints'') q} = {} \<and>
   timeout_ms = 300 * 1000"
proof -
  have f: "\<not> truthy (js_prop (failure ''HTTP 500: Internal Server Error'') ''success'')"
    by (simp add: failure_def)
  have r: "requests (fresh_world\<lparr> requests := [url] \<rparr>) \<noteq> requests fresh_world"
    by (simp add: fresh_world_def)
  have p: "rm_error permissive (join [''models''] ''checkpoints'') = None"
    by (simp add: permissive_def)
  from download_failure_removes_checkpoints [OF http_500_download f r p]
  show ?thesis
    using http_500_download by simp
qed

text \<open>
  C5 as stated fails: when the removal throws, the handler logs that and still returns
  the failure.  Here the request times out and \<open>rmSync\<close> is refused: the checkpoints
  directory and the partial model file are still there, and a later
  \<open>check-model-files\<close> reports the model as present.
\<close>

theorem cleanup_failure_leaves_partial_file:
  "download rm_denied (Some [''models'']) [Timeout] fresh_world =
     (model_world\<lparr> requests := [url] \<rparr>, Some (failure ''Download timeout'')) \<and>
   check_model_files (Some [''models'']) (fs (model_world\<lparr> requests := [url] \<rparr>)) =
     Returns (JObj [(''internvideo2'', JBool True)])"
  apply (simp add: download_def download_start_def rm_denied_def fresh_world_def model_world_def
      existsSync_def mkdirSync_def access_def join_def resolve_def cleanup_def rmSync_def Let_def
      check_model_files_def)
  apply auto
  done

section \<open>Properties of the remote backend handlers\<close>

text \<open>
  C9, as the code has it.  For every payload object the \<open>remote-backend:upload-video\<close>
  handler returns \<open>{success: false}\<close> with an error message and makes no network
  request, so the upload never succeeds.  The message is the fixed one when \<open>file\<close> is
  neither \<open>null\<close> nor \<open>undefined\<close>; when it is \<open>null\<close> or \<open>undefined\<close>, the message
  is the one of the TypeError that reading \<open>file.name\<close> throws, which is never the
  fixed one.
\<close>

theorem upload_video_handler_refuses:
  assumes "\<not> nullish payload"
  shows "upload_video_handler payload =
           Returns (failure (if nullish (js_prop payload ''file'')
                             then type_error_message (js_prop payload ''file'') ''name''
                             else upload_refused), []) \<and>
         type_error_message (js_prop payload ''file'') ''name'' \<noteq> upload_refused"
proof -
  have "type_error_message v ''name'' \<noteq> upload_refused" for v
    by (cases v) (simp_all add: upload_refused_def)
  then show ?thesis
    using assms by (simp add: upload_video_handler_def failure_def)
qed

theorem upload_video_handler_refuses_witness:
  "upload_video_handler
     (JObj [(''file'', JObj [(''name'', JStr ''clip.mp4'')]), (''config'', JObj [])]) =
     Returns (failure
       (if nullish (js_prop (JObj [(''file'', JObj [(''name'', JStr ''clip.mp4'')]),
                                   (''config'', JObj [])]) ''file'')
        then type_error_message
               (js_prop (JObj [(''file'', JObj [(''name'', JStr ''clip.mp4'')]),
                               (''config'', JObj [])]) ''file'') ''name''
        else upload_refused), []) \<and>
   type_error_message
     (js_prop (JObj [(''file'', JObj [(''name'', JStr ''clip.mp4'')]), (''config'', JObj [])])
        ''file'') ''name'' \<noteq> upload_refused"
proof -
  have h: "\<not> nullish (JObj [(''file'', JObj [(''name'', JStr ''clip.mp4'')]), (''config'', JObj [])])"
    by simp
  show ?thesis
    by (rule upload_video_handler_refuses [OF h])
qed

text \<open>
  C9 as stated fails: with \<open>file\<close> \<open>null\<close>, and with no \<open>file\<close> at all
  (\<open>undefined\<close>), the handler returns the message of the TypeError, which is not the
  fixed message.
\<close>

theorem upload_video_handler_null_file:
  "upload_video_handler (JObj [(''file'', JNull), (''config'', JObj [])]) =
     Returns (failure (''Cannot read properties of null (reading '' @ [CHR 0x27] @ ''name'' @
                       [CHR 0x27] @ '')''), []) \<and>
   upload_video_handler (JObj [(''config'', JObj [])]) =
     Returns (failure (''Cannot read properties of undefined (reading '' @ [CHR 0x27] @ ''name'' @
                       [CHR 0x27] @ '')''), []) \<and>
   ''Cannot read properties of null (reading '' @ [CHR 0x27] @ ''name'' @ [CHR 0x27] @ '')''
     \<noteq> upload_refused \<and>
   ''Cannot read properties of undefined (reading '' @ [CHR 0x27] @ ''name'' @ [CHR 0x27] @ '')''
     \<noteq> upload_refused"
  by (simp add: upload_video_handler_def failure_def upload_refused_def)

lemma target_fps_forced:
  "js_prop (uploadConfig config) ''target_fps'' = JNum 1 \<and>
   (processConfig config = Throws \<or>
    (\<exists>c. processConfig config = Returns c \<and> js_prop c ''target_fps'' = JNum 1))"
  by (simp add: uploadConfig_def processConfig_def update_conv')

lemma other_fields_kept:
  assumes "k \<notin> {''target_fps'', ''detect_scenes'', ''scene_threshold'', ''min_duration'',
                 ''max_duration''}"
  shows "js_prop (uploadConfig (JObj kvs)) k = js_prop (JObj kvs) k"
  using assms by (simp add: uploadConfig_def update_conv')

text \<open>
  C10 at a caller's configuration with \<open>scene_threshold\<close> 0 and \<open>target_fps\<close> 30: both
  \<open>uploadVideo\<close> and the \<open>remote-backend:process-video\<close> handler send \<open>target_fps\<close> 1,
  and both send \<open>scene_threshold\<close> 0.2 in place of the caller's 0.
\<close>

theorem zero_scene_threshold_replaced:
  "js_prop (uploadConfig (JObj [(''scene_threshold'', JNum 0), (''target_fps'', JNum 30)]))
     ''scene_threshold'' = JNum (2 / 10) \<and>
   js_prop (uploadConfig (JObj [(''scene_threshold'', JNum 0), (''target_fps'', JNum 30)]))
     ''target_fps'' = JNum 1 \<and>
   processConfig (JObj [(''scene_threshold'', JNum 0), (''target_fps'', JNum 30)]) =
     Returns (JObj [(''scene_threshold'', JNum (2 / 10)), (''target_fps'', JNum 1),
                    (''detect_scenes'', JBool True), (''min_duration'', JNum 5),
                    (''max_duration'', JNum 12), (''generate_embeddings'', JBool True)])"
  by (simp add: uploadConfig_def processConfig_def js_or_def js_opt_prop_def strict_neq_def)

end
